theory Spec2Isabelle
  imports Main "HOL-Library.Word"
begin

section \<open>The V-REP helper of TAPIR: data\<close>

text \<open>
  \<^verbatim>\<open>src/problems/shared/ros/VrepHelper.cpp\<close> wraps seven ROS services of the V-REP
  simulator and one subscription. The service fields are \<^verbatim>\<open>int32\<close>; the C++ methods
  take and return \<^verbatim>\<open>long\<close>, which is 64 bits wide on the LP64 Linux targets of ROS.
  Storing a \<^verbatim>\<open>long\<close> in an \<^verbatim>\<open>int32\<close> field keeps the low 32 bits (\<open>ucast\<close>); reading an
  \<^verbatim>\<open>int32\<close> field into a \<^verbatim>\<open>long\<close> extends the sign (\<open>scast\<close>).
\<close>

type_synonym int32 = "32 word"
type_synonym long = "64 word"

text \<open>
  \<^verbatim>\<open>geometry_msgs::Point\<close>. The coordinates are floating-point values that the code only
  copies (\<^verbatim>\<open>float\<close> arguments into \<^verbatim>\<open>float64\<close> fields, a widening that keeps the value),
  so their type is left open as \<open>'c\<close>. The fields \<^verbatim>\<open>x\<close>, \<^verbatim>\<open>y\<close>, \<^verbatim>\<open>z\<close> are prefixed.
\<close>

record 'c Point =
  point_x :: 'c
  point_y :: 'c
  point_z :: 'c

text \<open>The request of \<^verbatim>\<open>simRosSetObjectPosition\<close>.\<close>

record 'c SetObjectPositionRequest =
  sop_handle :: int32
  sop_relativeToObjectHandle :: int32
  sop_position :: "'c Point"

text \<open>
  The request and the response of \<^verbatim>\<open>simRosGetObjectPose\<close>. The pose is a
  \<^verbatim>\<open>geometry_msgs::PoseStamped\<close>, which the code returns as it is: its type is left open
  as \<open>'p\<close>.
\<close>

record GetObjectPoseRequest =
  gop_handle :: int32
  gop_relativeToObjectHandle :: int32

record 'p GetObjectPoseResponse =
  gop_result :: int32
  gop_pose :: 'p

text \<open>
  The message of the topic \<^verbatim>\<open>/vrep/info\<close>. The callback reads
  \<^verbatim>\<open>simulatorState.data\<close> only.
\<close>

record VrepInfo =
  simulatorState :: int32

text \<open>
  Every request that can go out, for the log of requests. The other services have one
  request field (or none) and one response field, so they need no record.
\<close>

datatype 'c request =
    StartSimulation
  | StopSimulation
  | CopyPasteObjects "int32 list"
  | GetObjectHandle string
  | SetObjectPosition "'c SetObjectPositionRequest"
  | GetObjectPose GetObjectPoseRequest
  | LoadScene string

text \<open>
  A \<^verbatim>\<open>ros::ServiceClient\<close> is represented by the name of the service it was created
  for, \<open>None\<close> for a default-constructed client. A \<^verbatim>\<open>ros::Subscriber\<close> is the topic
  with its queue size. A \<^verbatim>\<open>ros::NodeHandle *\<close> is an address.
\<close>

type_synonym ServiceClient = "string option"
type_synonym Subscriber = "(string \<times> nat) option"
type_synonym NodeHandle = nat

text \<open>
  The members of the class \<^verbatim>\<open>VrepHelper\<close>. The source writes them with a trailing
  underscore (\<^verbatim>\<open>running_\<close>, \<^verbatim>\<open>startClient_\<close>, ...), which Isabelle keeps for
  internal names: the underscore is dropped here.
\<close>

record VrepHelper =
  running :: bool
  node :: "NodeHandle option"
  startClient :: ServiceClient
  stopClient :: ServiceClient
  copyClient :: ServiceClient
  handleClient :: ServiceClient
  moveClient :: ServiceClient
  poseClient :: ServiceClient
  loadClient :: ServiceClient
  infoSub :: Subscriber

text \<open>
  The world outside the helper. What \<^verbatim>\<open>client.call(srv)\<close> does is a parameter, one
  function for each service type: given the client, the request and the state \<open>'w\<close> of
  the remote simulator it yields the flag that \<^verbatim>\<open>call\<close> returns, the response part of
  \<^verbatim>\<open>srv\<close> as it is after the call, and the next state of the simulator.
  \<^verbatim>\<open>ros::package::getPath\<close> is a parameter as well.
\<close>

record ('w, 'c, 'p) remote =
  callStartSimulation :: "ServiceClient \<Rightarrow> unit \<Rightarrow> 'w \<Rightarrow> (bool \<times> int32) \<times> 'w"
  callStopSimulation :: "ServiceClient \<Rightarrow> unit \<Rightarrow> 'w \<Rightarrow> (bool \<times> int32) \<times> 'w"
  callCopyPasteObjects :: "ServiceClient \<Rightarrow> int32 list \<Rightarrow> 'w \<Rightarrow> (bool \<times> int32 list) \<times> 'w"
  callGetObjectHandle :: "ServiceClient \<Rightarrow> string \<Rightarrow> 'w \<Rightarrow> (bool \<times> int32) \<times> 'w"
  callSetObjectPosition ::
    "ServiceClient \<Rightarrow> 'c SetObjectPositionRequest \<Rightarrow> 'w \<Rightarrow> (bool \<times> int32) \<times> 'w"
  callGetObjectPose ::
    "ServiceClient \<Rightarrow> GetObjectPoseRequest \<Rightarrow> 'w \<Rightarrow> (bool \<times> 'p GetObjectPoseResponse) \<times> 'w"
  callLoadScene :: "ServiceClient \<Rightarrow> string \<Rightarrow> 'w \<Rightarrow> (bool \<times> int32) \<times> 'w"
  getPath :: "string \<Rightarrow> string"

text \<open>
  The state of the ROS side: the remote simulator, the requests sent so far (oldest
  first, each with the client it went through), and the \<^verbatim>\<open>/vrep/info\<close> messages that
  are queued for \<^verbatim>\<open>infoCallback\<close> and not yet dispatched (oldest first).
\<close>

record ('w, 'c) ros =
  world :: 'w
  sent :: "(ServiceClient \<times> 'c request) list"
  pending :: "VrepInfo list"

section \<open>The operations\<close>

text \<open>
  One \<^verbatim>\<open>client.call(srv)\<close>: the request is logged and handed to the service, the
  simulator moves on, and the flag and the response come back.
\<close>

definition call ::
  "(ServiceClient \<Rightarrow> 'rq \<Rightarrow> 'w \<Rightarrow> (bool \<times> 'rs) \<times> 'w) \<Rightarrow> ('rq \<Rightarrow> 'c request) \<Rightarrow>
   ServiceClient \<Rightarrow> 'rq \<Rightarrow> ('w, 'c) ros \<Rightarrow> (bool \<times> 'rs) \<times> ('w, 'c) ros" where
  "call service tag client rq r =
     (case service client rq (world r) of
        (out, w') \<Rightarrow> (out, r\<lparr>world := w', sent := sent r @ [(client, tag rq)]\<rparr>))"

text \<open>The two constructors and \<^verbatim>\<open>setRosNode\<close>.\<close>

definition setRosNode :: "NodeHandle \<Rightarrow> VrepHelper \<Rightarrow> VrepHelper" where
  "setRosNode nh h =
     h\<lparr>node := Some nh,
       startClient := Some ''vrep/simRosStartSimulation'',
       stopClient := Some ''vrep/simRosStopSimulation'',
       copyClient := Some ''vrep/simRosCopyPasteObjects'',
       handleClient := Some ''vrep/simRosGetObjectHandle'',
       moveClient := Some ''vrep/simRosSetObjectPosition'',
       poseClient := Some ''vrep/simRosGetObjectPose'',
       loadClient := Some ''vrep/simRosLoadScene'',
       infoSub := Some (''/vrep/info'', 1)\<rparr>"

definition VrepHelper_default :: VrepHelper where
  "VrepHelper_default =
     \<lparr>running = False, node = None, startClient = None, stopClient = None,
      copyClient = None, handleClient = None, moveClient = None, poseClient = None,
      loadClient = None, infoSub = None\<rparr>"

definition VrepHelper_node :: "NodeHandle \<Rightarrow> VrepHelper" where
  "VrepHelper_node nh = setRosNode nh VrepHelper_default"

text \<open>\<^verbatim>\<open>start\<close> and \<^verbatim>\<open>stop\<close>: the flag of \<^verbatim>\<open>call\<close> is dropped.\<close>

fun start ::
  "('w, 'c, 'p) remote \<Rightarrow> VrepHelper \<times> ('w, 'c) ros \<Rightarrow> bool \<times> VrepHelper \<times> ('w, 'c) ros" where
  "start env (h, r) =
     (case call (callStartSimulation env) (\<lambda>_. StartSimulation) (startClient h) () r of
        ((ok, result), r') \<Rightarrow> (result \<noteq> - 1, h, r'))"

fun stop ::
  "('w, 'c, 'p) remote \<Rightarrow> VrepHelper \<times> ('w, 'c) ros \<Rightarrow> bool \<times> VrepHelper \<times> ('w, 'c) ros" where
  "stop env (h, r) =
     (case call (callStopSimulation env) (\<lambda>_. StopSimulation) (stopClient h) () r of
        ((ok, result), r') \<Rightarrow> (result \<noteq> - 1, h, r'))"

text \<open>\<^verbatim>\<open>getHandle\<close>: the \<^verbatim>\<open>int32\<close> handle of the response, returned as a \<^verbatim>\<open>long\<close>.\<close>

fun getHandle ::
  "('w, 'c, 'p) remote \<Rightarrow> string \<Rightarrow> VrepHelper \<times> ('w, 'c) ros \<Rightarrow>
   long \<times> VrepHelper \<times> ('w, 'c) ros" where
  "getHandle env name (h, r) =
     (case call (callGetObjectHandle env) GetObjectHandle (handleClient h) name r of
        ((ok, handle), r') \<Rightarrow> (scast handle, h, r'))"

text \<open>\<^verbatim>\<open>moveObject(long handle, float x, float y, float z)\<close>.\<close>

fun moveObject_handle ::
  "('w, 'c, 'p) remote \<Rightarrow> long \<Rightarrow> 'c \<Rightarrow> 'c \<Rightarrow> 'c \<Rightarrow> VrepHelper \<times> ('w, 'c) ros \<Rightarrow>
   bool \<times> VrepHelper \<times> ('w, 'c) ros" where
  "moveObject_handle env handle x y z (h, r) =
     (let msg = \<lparr>point_x = x, point_y = y, point_z = z\<rparr>;
          rq = \<lparr>sop_handle = ucast handle, sop_relativeToObjectHandle = - 1,
                sop_position = msg\<rparr>
      in case call (callSetObjectPosition env) SetObjectPosition (moveClient h) rq r of
           ((ok, result), r') \<Rightarrow> (result \<noteq> - 1, h, r'))"

text \<open>\<^verbatim>\<open>moveObject(std::string name, float x, float y, float z)\<close>.\<close>

fun moveObject_name ::
  "('w, 'c, 'p) remote \<Rightarrow> string \<Rightarrow> 'c \<Rightarrow> 'c \<Rightarrow> 'c \<Rightarrow> VrepHelper \<times> ('w, 'c) ros \<Rightarrow>
   bool \<times> VrepHelper \<times> ('w, 'c) ros" where
  "moveObject_name env name x y z s =
     (case getHandle env name s of
        (handle, s') \<Rightarrow> moveObject_handle env handle x y z s')"

text \<open>
  \<^verbatim>\<open>copyObject\<close>: \<^verbatim>\<open>newObjectHandles[0]\<close> on an empty vector is undefined behaviour,
  after which neither a result nor a state is defined: \<open>None\<close>.
\<close>

fun copyObject ::
  "('w, 'c, 'p) remote \<Rightarrow> long \<Rightarrow> VrepHelper \<times> ('w, 'c) ros \<Rightarrow>
   (long \<times> VrepHelper \<times> ('w, 'c) ros) option" where
  "copyObject env handle (h, r) =
     (let handles = [] @ [ucast handle]
      in case call (callCopyPasteObjects env) CopyPasteObjects (copyClient h) handles r of
           ((ok, newObjectHandles), r') \<Rightarrow>
             (if 0 < length newObjectHandles
              then Some (scast (newObjectHandles ! 0), h, r')
              else None))"

text \<open>\<^verbatim>\<open>getPose\<close>: the result code of the response is not read.\<close>

fun getPose ::
  "('w, 'c, 'p) remote \<Rightarrow> long \<Rightarrow> VrepHelper \<times> ('w, 'c) ros \<Rightarrow>
   'p \<times> VrepHelper \<times> ('w, 'c) ros" where
  "getPose env handle (h, r) =
     (let rq = \<lparr>gop_handle = ucast handle, gop_relativeToObjectHandle = - 1\<rparr>
      in case call (callGetObjectPose env) GetObjectPose (poseClient h) rq r of
           ((ok, response), r') \<Rightarrow> (gop_pose response, h, r'))"

text \<open>\<^verbatim>\<open>infoCallback\<close>.\<close>

definition infoCallback :: "VrepInfo \<Rightarrow> VrepHelper \<Rightarrow> VrepHelper" where
  "infoCallback msg h = (let status = simulatorState msg in h\<lparr>running := (status = 1)\<rparr>)"

text \<open>The callback invoked once for each message of a list, oldest first.\<close>

definition deliver :: "VrepInfo list \<Rightarrow> VrepHelper \<Rightarrow> VrepHelper" where
  "deliver msgs h = foldl (\<lambda>h' msg. infoCallback msg h') h msgs"

text \<open>
  Modelled from the spec: \<^verbatim>\<open>ros::spinOnce\<close> belongs to the ROS client library and is
  not among the sources. Section 5 of the specification says that the pending deliveries
  are drained on demand: every queued message is handed to the callback, oldest first,
  and the queue is empty afterwards.
\<close>

definition spinOnce :: "VrepHelper \<times> ('w, 'c) ros \<Rightarrow> VrepHelper \<times> ('w, 'c) ros" where
  "spinOnce s = (case s of (h, r) \<Rightarrow> (deliver (pending r) h, r\<lparr>pending := []\<rparr>))"

text \<open>\<^verbatim>\<open>isRunning\<close>.\<close>

definition isRunning :: "VrepHelper \<times> ('w, 'c) ros \<Rightarrow> bool \<times> VrepHelper \<times> ('w, 'c) ros" where
  "isRunning s = (case spinOnce s of (h', r') \<Rightarrow> (running h', h', r'))"

text \<open>\<^verbatim>\<open>loadScene(std::string fullPath)\<close>: success is the result code 1.\<close>

fun loadScene_path ::
  "('w, 'c, 'p) remote \<Rightarrow> string \<Rightarrow> VrepHelper \<times> ('w, 'c) ros \<Rightarrow>
   bool \<times> VrepHelper \<times> ('w, 'c) ros" where
  "loadScene_path env fullPath (h, r) =
     (case call (callLoadScene env) LoadScene (loadClient h) fullPath r of
        ((ok, result), r') \<Rightarrow> (result = 1, h, r'))"

text \<open>\<^verbatim>\<open>loadScene(std::string problemName, std::string relativePath, std::string packageName)\<close>.\<close>

definition loadScene_package ::
  "('w, 'c, 'p) remote \<Rightarrow> string \<Rightarrow> string \<Rightarrow> string \<Rightarrow> VrepHelper \<times> ('w, 'c) ros \<Rightarrow>
   bool \<times> VrepHelper \<times> ('w, 'c) ros" where
  "loadScene_package env problemName relativePath packageName s =
     (let problemPath = (getPath env packageName @ ''/problems/'') @ problemName;
          fullPath = (problemPath @ ''/'') @ relativePath
      in loadScene_path env fullPath s)"

section \<open>The specification's wording, and a mocked remote service\<close>

text \<open>
  The scene path as the specification words it: the package path, \<^verbatim>\<open>/problems/\<close>, the
  problem name, \<^verbatim>\<open>/\<close> and the relative path, in that order.
\<close>

definition scenePath_spec :: "string \<Rightarrow> string \<Rightarrow> string \<Rightarrow> string" where
  "scenePath_spec packagePath problemName relativePath =
     concat [packagePath, ''/problems/'', problemName, ''/'', relativePath]"

text \<open>
  A mocked remote service for the concrete instances below. Every call succeeds; the
  services with a result code answer \<open>R\<close>, the handle lookup answers \<open>H\<close>, the copy
  service answers the list \<open>hs\<close>, the pose is a fixed text, and the simulator state counts
  the calls.
\<close>

definition mockRemote :: "int32 \<Rightarrow> int32 \<Rightarrow> int32 list \<Rightarrow> (nat, int, string) remote" where
  "mockRemote R H hs =
     \<lparr>callStartSimulation = (\<lambda>client rq w. ((True, R), Suc w)),
      callStopSimulation = (\<lambda>client rq w. ((True, R), Suc w)),
      callCopyPasteObjects = (\<lambda>client rq w. ((True, hs), Suc w)),
      callGetObjectHandle = (\<lambda>client rq w. ((True, H), Suc w)),
      callSetObjectPosition = (\<lambda>client rq w. ((True, R), Suc w)),
      callGetObjectPose = (\<lambda>client rq w. ((True, \<lparr>gop_result = R, gop_pose = ''pose''\<rparr>), Suc w)),
      callLoadScene = (\<lambda>client rq w. ((True, R), Suc w)),
      getPath = (\<lambda>packageName. ''/opt/ros/'' @ packageName)\<rparr>"

definition ros0 :: "(nat, int) ros" where
  "ros0 = \<lparr>world = 0, sent = [], pending = []\<rparr>"


section \<open>Auxiliary facts\<close>

text \<open>
  Sign extension from 32 to 64 bits keeps the value, and cutting the result back to 32
  bits gives the original word.
\<close>

lemma ucast_scast_int32: "ucast (scast (x :: int32) :: long) = x"
  by (rule bit_word_eqI) (auto simp add: bit_simps)

lemma sint_scast_int32: "sint (scast (x :: int32) :: long) = sint x"
  by (simp add: sint_up_scast is_up)


text \<open>The package form of \<^verbatim>\<open>loadScene\<close> with its path written out.\<close>

lemma loadScene_package_path:
  "loadScene_package env problemName relativePath packageName s =
   loadScene_path env
     (getPath env packageName @ ''/problems/'' @ problemName @ ''/'' @ relativePath) s"
  by (simp add: loadScene_package_def Let_def)

text \<open>The callback, the queue and \<^verbatim>\<open>isRunning\<close>.\<close>

lemma running_infoCallback: "running (infoCallback msg h) = (simulatorState msg = 1)"
  by (simp add: infoCallback_def)

lemma deliver_Nil: "deliver [] h = h"
  by (simp add: deliver_def)

lemma deliver_snoc: "deliver (msgs @ [msg]) h = infoCallback msg (deliver msgs h)"
  by (simp add: deliver_def)

lemma running_deliver:
  "running (deliver msgs h) = (if msgs = [] then running h else simulatorState (last msgs) = 1)"
  by (induction msgs rule: rev_induct) (simp_all add: deliver_Nil deliver_snoc running_infoCallback)

lemma isRunning_eq:
  "isRunning (h, r) = (running (deliver (pending r) h), deliver (pending r) h, r\<lparr>pending := []\<rparr>)"
  by (simp add: isRunning_def spinOnce_def)

text \<open>
  No operation that calls a service touches the helper object, and each of them appends
  its request to the log.
\<close>

lemma helper_unchanged:
  "fst (snd (start env (h, r))) = h"
  "fst (snd (stop env (h, r))) = h"
  "fst (snd (getHandle env name (h, r))) = h"
  "fst (snd (moveObject_handle env handle x y z (h, r))) = h"
  "fst (snd (getPose env handle (h, r))) = h"
  "fst (snd (loadScene_path env fullPath (h, r))) = h"
  by (simp_all add: call_def Let_def split: prod.splits)

lemma moveObject_name_helper_unchanged:
  "fst (snd (moveObject_name env name x y z (h, r))) = h"
  by (cases "callGetObjectHandle env (handleClient h) name (world r)" rule: prod.exhaust)
     (simp add: call_def Let_def split: prod.splits)

lemma loadScene_package_helper_unchanged:
  "fst (snd (loadScene_package env problemName relativePath packageName (h, r))) = h"
  by (simp only: loadScene_package_path helper_unchanged)

lemma copyObject_helper_unchanged:
  "copyObject env handle (h, r) = Some (v, h', r') \<Longrightarrow> h' = h"
  by (auto simp add: call_def Let_def split: prod.splits if_splits)

lemma sent_one:
  "sent (snd (snd (start env (h, r)))) = sent r @ [(startClient h, StartSimulation)]"
  "sent (snd (snd (stop env (h, r)))) = sent r @ [(stopClient h, StopSimulation)]"
  "sent (snd (snd (getHandle env name (h, r)))) = sent r @ [(handleClient h, GetObjectHandle name)]"
  "sent (snd (snd (moveObject_handle env handle x y z (h, r)))) =
     sent r @ [(moveClient h, SetObjectPosition
       \<lparr>sop_handle = ucast handle, sop_relativeToObjectHandle = - 1,
        sop_position = \<lparr>point_x = x, point_y = y, point_z = z\<rparr>\<rparr>)]"
  "sent (snd (snd (getPose env handle (h, r)))) =
     sent r @ [(poseClient h, GetObjectPose
       \<lparr>gop_handle = ucast handle, gop_relativeToObjectHandle = - 1\<rparr>)]"
  "sent (snd (snd (loadScene_path env fullPath (h, r)))) = sent r @ [(loadClient h, LoadScene fullPath)]"
  by (simp_all add: call_def Let_def split: prod.splits)

lemma copyObject_sent:
  "copyObject env handle (h, r) = Some (v, h', r') \<Longrightarrow>
   sent r' = sent r @ [(copyClient h, CopyPasteObjects [ucast handle])]"
  by (auto simp add: call_def Let_def split: prod.splits if_splits)

lemma moveObject_name_sent:
  "fst (callGetObjectHandle env (handleClient h) name (world r)) = (ok, H) \<Longrightarrow>
   sent (snd (snd (moveObject_name env name x y z (h, r)))) =
     sent r @ [(handleClient h, GetObjectHandle name),
       (moveClient h, SetObjectPosition
         \<lparr>sop_handle = H, sop_relativeToObjectHandle = - 1,
          sop_position = \<lparr>point_x = x, point_y = y, point_z = z\<rparr>\<rparr>)]"
  by (cases "callGetObjectHandle env (handleClient h) name (world r)" rule: prod.exhaust)
     (simp add: call_def Let_def ucast_scast_int32 split: prod.splits)

lemma moveObject_name_result:
  "callGetObjectHandle env (handleClient h) name (world r) = ((okh, H), wh) \<Longrightarrow>
   fst (callSetObjectPosition env (moveClient h)
     \<lparr>sop_handle = H, sop_relativeToObjectHandle = - 1,
      sop_position = \<lparr>point_x = x, point_y = y, point_z = z\<rparr>\<rparr> wh) = (ok, R) \<Longrightarrow>
   fst (moveObject_name env name x y z (h, r)) = (R \<noteq> - 1)"
  by (auto simp add: call_def Let_def ucast_scast_int32 split: prod.splits)

section \<open>The claims\<close>

subsection \<open>C1: what the boolean wrappers return\<close>

text \<open>
  C1, as amended. Whatever result code \<open>R\<close> the remote service leaves in the response,
  and whatever flag the call itself returns, \<^verbatim>\<open>start\<close>, \<^verbatim>\<open>stop\<close> and both forms of
  \<^verbatim>\<open>moveObject\<close> return the boolean \<open>R \<noteq> -1\<close>, while both forms of \<^verbatim>\<open>loadScene\<close>
  return the boolean \<open>R = 1\<close>. For the move by name, \<open>R\<close> is the answer to the position
  request that carries the handle \<open>H\<close> found by the lookup.
\<close>

theorem boolean_wrappers_result_code:
  "(fst (callStartSimulation env (startClient h) () (world r)) = (ok, R) \<longrightarrow>
      fst (start env (h, r)) = (R \<noteq> - 1)) \<and>
   (fst (callStopSimulation env (stopClient h) () (world r)) = (ok, R) \<longrightarrow>
      fst (stop env (h, r)) = (R \<noteq> - 1)) \<and>
   (fst (callSetObjectPosition env (moveClient h)
        \<lparr>sop_handle = ucast handle, sop_relativeToObjectHandle = - 1,
         sop_position = \<lparr>point_x = x, point_y = y, point_z = z\<rparr>\<rparr> (world r)) = (ok, R) \<longrightarrow>
      fst (moveObject_handle env handle x y z (h, r)) = (R \<noteq> - 1)) \<and>
   (callGetObjectHandle env (handleClient h) name (world r) = ((okh, H), wh) \<and>
    fst (callSetObjectPosition env (moveClient h)
        \<lparr>sop_handle = H, sop_relativeToObjectHandle = - 1,
         sop_position = \<lparr>point_x = x, point_y = y, point_z = z\<rparr>\<rparr> wh) = (ok, R) \<longrightarrow>
      fst (moveObject_name env name x y z (h, r)) = (R \<noteq> - 1)) \<and>
   (fst (callLoadScene env (loadClient h) fullPath (world r)) = (ok, R) \<longrightarrow>
      fst (loadScene_path env fullPath (h, r)) = (R = 1)) \<and>
   (fst (callLoadScene env (loadClient h)
        (getPath env packageName @ ''/problems/'' @ problemName @ ''/'' @ relativePath)
        (world r)) = (ok, R) \<longrightarrow>
      fst (loadScene_package env problemName relativePath packageName (h, r)) = (R = 1))"
proof (intro conjI impI)
  show "fst (moveObject_name env name x y z (h, r)) = (R \<noteq> - 1)"
    if "callGetObjectHandle env (handleClient h) name (world r) = ((okh, H), wh) \<and>
      fst (callSetObjectPosition env (moveClient h)
        \<lparr>sop_handle = H, sop_relativeToObjectHandle = - 1,
         sop_position = \<lparr>point_x = x, point_y = y, point_z = z\<rparr>\<rparr> wh) = (ok, R)"
    by (rule moveObject_name_result [OF conjunct1 [OF that] conjunct2 [OF that]])
qed (auto simp add: loadScene_package_path call_def Let_def split: prod.splits)

text \<open>
  An instance: every service answers the result code 0, so the start, stop and move
  wrappers report success and the two scene loaders report failure.
\<close>

theorem boolean_wrappers_result_code_witness:
  "fst (start (mockRemote 0 5 [9]) (VrepHelper_node 0, ros0)) = True \<and>
   fst (stop (mockRemote 0 5 [9]) (VrepHelper_node 0, ros0)) = True \<and>
   fst (moveObject_handle (mockRemote 0 5 [9]) 7 1 2 3 (VrepHelper_node 0, ros0)) = True \<and>
   fst (moveObject_name (mockRemote 0 5 [9]) ''box'' 1 2 3 (VrepHelper_node 0, ros0)) = True \<and>
   fst (loadScene_path (mockRemote 0 5 [9]) ''/tmp/scene.ttt'' (VrepHelper_node 0, ros0)) = False \<and>
   fst (loadScene_package (mockRemote 0 5 [9]) ''tag'' ''scene.ttt'' ''tapir''
     (VrepHelper_node 0, ros0)) = False"
  using boolean_wrappers_result_code [where env = "mockRemote 0 5 [9]" and h = "VrepHelper_node 0"
    and r = ros0 and ok = True and R = 0 and handle = 7 and x = 1 and y = 2 and z = 3
    and name = "''box''" and okh = True and H = 5 and wh = 1
    and fullPath = "''/tmp/scene.ttt''" and packageName = "''tapir''" and problemName = "''tag''"
    and relativePath = "''scene.ttt''"]
  by (simp add: mockRemote_def ros0_def del: start.simps stop.simps moveObject_handle.simps moveObject_name.simps loadScene_path.simps)

text \<open>
  C1 as stated fails for \<^verbatim>\<open>loadScene\<close>: the service answers the result code 0, which is
  not -1, and the wrapper returns false.
\<close>

theorem loadScene_result_zero_counterexample:
  "fst (callLoadScene (mockRemote 0 5 [9]) (loadClient (VrepHelper_node 0)) ''/tmp/scene.ttt''
     (world ros0)) = (True, 0) \<and>
   fst (loadScene_path (mockRemote 0 5 [9]) ''/tmp/scene.ttt'' (VrepHelper_node 0, ros0))
     \<noteq> ((0 :: int32) \<noteq> - 1)"
  by (simp add: mockRemote_def ros0_def call_def)

subsection \<open>C2: how failure is reported\<close>




subsection \<open>C3: the flag reflects the last status\<close>

text \<open>
  C3. After the callback has run for each message of a non-empty sequence, in order, the
  flag \<^verbatim>\<open>running_\<close> is true exactly when \<^verbatim>\<open>simulatorState\<close> of the last message is 1; and
  \<^verbatim>\<open>isRunning\<close> returns that flag: the flag of the state it leaves, which after these
  deliveries, with nothing more queued, is true exactly when \<^verbatim>\<open>simulatorState\<close> of the last
  message is 1, and which for a non-empty queue is decided by the last queued message.
\<close>

theorem running_reflects_last_status:
  "(msgs \<noteq> [] \<longrightarrow> running (deliver msgs h) = (simulatorState (last msgs) = 1)) \<and>
   fst (isRunning s) = running (fst (snd (isRunning s))) \<and>
   (msgs \<noteq> [] \<and> pending r = [] \<longrightarrow>
      fst (isRunning (deliver msgs h, r)) = (simulatorState (last msgs) = 1)) \<and>
   (pending r \<noteq> [] \<longrightarrow> fst (isRunning (h, r)) = (simulatorState (last (pending r)) = 1))"
proof (intro conjI impI)
  show "fst (isRunning s) = running (fst (snd (isRunning s)))"
    by (simp add: isRunning_def split: prod.splits)
  show "fst (isRunning (deliver msgs h, r)) = (simulatorState (last msgs) = 1)"
    if "msgs \<noteq> [] \<and> pending r = []"
    using that by (simp add: isRunning_eq deliver_Nil running_deliver)
qed (simp_all add: isRunning_eq running_deliver)

text \<open>
  Instances: the states 1 and then 3 (paused) arrive, and the flag and \<^verbatim>\<open>isRunning\<close> are
  false; the states 3 and then 1 arrive, and \<^verbatim>\<open>isRunning\<close> is true; the states 0 and then
  1 are still queued, and \<^verbatim>\<open>isRunning\<close> is true.
\<close>

theorem running_reflects_last_status_witness:
  "running (deliver [\<lparr>simulatorState = 1\<rparr>, \<lparr>simulatorState = 3\<rparr>] VrepHelper_default) = False \<and>
   fst (isRunning (deliver [\<lparr>simulatorState = 1\<rparr>, \<lparr>simulatorState = 3\<rparr>] VrepHelper_default,
     ros0)) = False \<and>
   fst (isRunning (deliver [\<lparr>simulatorState = 3\<rparr>, \<lparr>simulatorState = 1\<rparr>] VrepHelper_default,
     ros0)) = True \<and>
   fst (isRunning (VrepHelper_default,
     ros0\<lparr>pending := [\<lparr>simulatorState = 0\<rparr>, \<lparr>simulatorState = 1\<rparr>]\<rparr>)) = True"
proof -
  let ?paused = "[\<lparr>simulatorState = 1\<rparr>, \<lparr>simulatorState = 3\<rparr>]"
  let ?started = "[\<lparr>simulatorState = 3\<rparr>, \<lparr>simulatorState = 1\<rparr>]"
  let ?queued = "ros0\<lparr>pending := [\<lparr>simulatorState = 0\<rparr>, \<lparr>simulatorState = 1\<rparr>]\<rparr>"
  note paused = running_reflects_last_status [where msgs = ?paused and h = VrepHelper_default
      and r = ros0 and s = "(VrepHelper_default, ros0)"]
  note started = running_reflects_last_status [where msgs = ?started and h = VrepHelper_default
      and r = ros0 and s = "(VrepHelper_default, ros0)"]
  note queued = running_reflects_last_status [where msgs = ?paused and h = VrepHelper_default
      and r = ?queued and s = "(VrepHelper_default, ros0)"]
  have empty: "pending ros0 = []"
    by (simp add: ros0_def)
  have a: "running (deliver ?paused VrepHelper_default) = False"
    using paused [THEN conjunct1] by simp
  have b: "fst (isRunning (deliver ?paused VrepHelper_default, ros0)) = False"
    using paused [THEN conjunct2, THEN conjunct2, THEN conjunct1] empty by simp
  have c: "fst (isRunning (deliver ?started VrepHelper_default, ros0)) = True"
    using started [THEN conjunct2, THEN conjunct2, THEN conjunct1] empty by simp
  have d: "fst (isRunning (VrepHelper_default, ?queued)) = True"
    using queued [THEN conjunct2, THEN conjunct2, THEN conjunct2] by (simp add: ros0_def)
  show ?thesis
    using a b c d by blast
qed

subsection \<open>C4: reading the run state drains the queue first\<close>

text \<open>
  C4. \<^verbatim>\<open>isRunning\<close> hands every queued delivery to the callback, leaves the queue
  empty, and returns the flag as it is after these deliveries; it sends nothing and does
  not touch the simulator.
\<close>

theorem isRunning_drains_before_reading:
  "fst (snd (isRunning (h, r))) = deliver (pending r) h \<and>
   pending (snd (snd (isRunning (h, r)))) = [] \<and>
   fst (isRunning (h, r)) = running (deliver (pending r) h) \<and>
   world (snd (snd (isRunning (h, r)))) = world r \<and>
   sent (snd (snd (isRunning (h, r)))) = sent r"
  by (simp add: isRunning_eq)

text \<open>
  An instance: the states 0 and then 1 are queued; \<^verbatim>\<open>isRunning\<close> returns true and the
  queue is empty.
\<close>

theorem isRunning_drains_before_reading_witness:
  "fst (isRunning (VrepHelper_node 0,
      ros0\<lparr>pending := [\<lparr>simulatorState = 0\<rparr>, \<lparr>simulatorState = 1\<rparr>]\<rparr>)) = True \<and>
   pending (snd (snd (isRunning (VrepHelper_node 0,
      ros0\<lparr>pending := [\<lparr>simulatorState = 0\<rparr>, \<lparr>simulatorState = 1\<rparr>]\<rparr>)))) = []"
  using isRunning_drains_before_reading [where h = "VrepHelper_node 0"
    and r = "ros0\<lparr>pending := [\<lparr>simulatorState = 0\<rparr>, \<lparr>simulatorState = 1\<rparr>]\<rparr>"]
  by (simp add: deliver_def infoCallback_def ros0_def)

subsection \<open>C5: the move by name\<close>

text \<open>
  C5. The move by name is the handle lookup followed by the move by handle, in the state
  that the lookup leaves: it sends the lookup for the name and then the position request
  carrying exactly the handle \<open>H\<close> that the lookup answered. No other operation combines
  two remote operations: each of the others sends one request, and \<^verbatim>\<open>isRunning\<close> none.
\<close>

theorem moveObject_name_resolves_then_moves:
  "moveObject_name env name x y z s =
     moveObject_handle env (fst (getHandle env name s)) x y z (snd (getHandle env name s)) \<and>
   (fst (callGetObjectHandle env (handleClient h) name (world r)) = (ok, H) \<longrightarrow>
      sent (snd (snd (moveObject_name env name x y z (h, r)))) =
        sent r @ [(handleClient h, GetObjectHandle name),
          (moveClient h, SetObjectPosition
            \<lparr>sop_handle = H, sop_relativeToObjectHandle = - 1,
             sop_position = \<lparr>point_x = x, point_y = y, point_z = z\<rparr>\<rparr>)]) \<and>
   length (sent (snd (snd (start env (h, r))))) = Suc (length (sent r)) \<and>
   length (sent (snd (snd (stop env (h, r))))) = Suc (length (sent r)) \<and>
   length (sent (snd (snd (getHandle env name (h, r))))) = Suc (length (sent r)) \<and>
   length (sent (snd (snd (moveObject_handle env handle x y z (h, r))))) = Suc (length (sent r)) \<and>
   length (sent (snd (snd (getPose env handle (h, r))))) = Suc (length (sent r)) \<and>
   length (sent (snd (snd (loadScene_path env fullPath (h, r))))) = Suc (length (sent r)) \<and>
   length (sent (snd (snd (loadScene_package env problemName relativePath packageName (h, r))))) =
     Suc (length (sent r)) \<and>
   (copyObject env handle (h, r) = Some (v, h', r') \<longrightarrow> length (sent r') = Suc (length (sent r))) \<and>
   length (sent (snd (snd (isRunning (h, r))))) = length (sent r)"
proof (intro conjI impI)
  show "moveObject_name env name x y z s =
     moveObject_handle env (fst (getHandle env name s)) x y z (snd (getHandle env name s))"
    by (simp add: case_prod_beta del: getHandle.simps moveObject_handle.simps)
  show "sent (snd (snd (moveObject_name env name x y z (h, r)))) =
        sent r @ [(handleClient h, GetObjectHandle name),
          (moveClient h, SetObjectPosition
            \<lparr>sop_handle = H, sop_relativeToObjectHandle = - 1,
             sop_position = \<lparr>point_x = x, point_y = y, point_z = z\<rparr>\<rparr>)]"
    if "fst (callGetObjectHandle env (handleClient h) name (world r)) = (ok, H)"
    using that by (rule moveObject_name_sent)
  show "length (sent r') = Suc (length (sent r))"
    if "copyObject env handle (h, r) = Some (v, h', r')"
    using copyObject_sent [OF that] by simp
qed (simp_all only: sent_one loadScene_package_path isRunning_eq length_append list.size snd_conv
       ros.simps, simp_all)

text \<open>
  An instance: the lookup answers the handle 5; the copy service answers one handle.
\<close>

theorem moveObject_name_resolves_then_moves_witness:
  "sent (snd (snd (moveObject_name (mockRemote 0 5 [9]) ''box'' 1 2 3 (VrepHelper_node 0, ros0)))) =
     [(Some ''vrep/simRosGetObjectHandle'', GetObjectHandle ''box''),
      (Some ''vrep/simRosSetObjectPosition'', SetObjectPosition
        \<lparr>sop_handle = 5, sop_relativeToObjectHandle = - 1,
         sop_position = \<lparr>point_x = 1, point_y = 2, point_z = 3\<rparr>\<rparr>)] \<and>
   copyObject (mockRemote 0 5 [9]) 7 (VrepHelper_node 0, ros0) =
     Some (9, VrepHelper_node 0,
       \<lparr>world = 1, sent = [(copyClient (VrepHelper_node 0), CopyPasteObjects [7])],
        pending = []\<rparr>) \<and>
   length [(copyClient (VrepHelper_node 0), CopyPasteObjects [7 :: int32]) ::
     ServiceClient \<times> int request] = Suc (length (sent ros0))"
proof -
  let ?r' = "\<lparr>world = 1, sent = [(copyClient (VrepHelper_node 0), CopyPasteObjects [7])],
        pending = []\<rparr> :: (nat, int) ros"
  note inst = moveObject_name_resolves_then_moves [where env = "mockRemote 0 5 [9]"
      and h = "VrepHelper_node 0" and r = ros0 and ok = True and H = 5 and name = "''box''"
      and x = 1 and y = 2 and z = 3 and handle = 7 and v = 9 and h' = "VrepHelper_node 0"
      and r' = ?r']
  have lookup: "fst (callGetObjectHandle (mockRemote 0 5 [9]) (handleClient (VrepHelper_node 0))
      ''box'' (world ros0)) = (True, 5)"
    by (simp add: mockRemote_def)
  have copy: "copyObject (mockRemote 0 5 [9]) 7 (VrepHelper_node 0, ros0) =
     Some (9, VrepHelper_node 0, ?r')"
    by (simp add: mockRemote_def ros0_def call_def)
  have "sent (snd (snd (moveObject_name (mockRemote 0 5 [9]) ''box'' 1 2 3
      (VrepHelper_node 0, ros0)))) =
    sent ros0 @ [(handleClient (VrepHelper_node 0), GetObjectHandle ''box''),
      (moveClient (VrepHelper_node 0), SetObjectPosition
        \<lparr>sop_handle = 5, sop_relativeToObjectHandle = - 1,
         sop_position = \<lparr>point_x = 1, point_y = 2, point_z = 3\<rparr>\<rparr>)]"
    by (rule inst [THEN conjunct2, THEN conjunct1, THEN mp, OF lookup])
  moreover have "length (sent ?r') = Suc (length (sent ros0))"
    using inst copy by blast
  ultimately show ?thesis
    using copy by (simp add: ros0_def VrepHelper_node_def setRosNode_def VrepHelper_default_def
      del: moveObject_name.simps copyObject.simps)
qed

subsection \<open>C6: the values handed through\<close>

text \<open>
  C6, as amended. \<^verbatim>\<open>getHandle\<close> returns the value of the handle field of the response
  (widened from \<^verbatim>\<open>int32\<close> to \<^verbatim>\<open>long\<close>), \<^verbatim>\<open>getPose\<close> returns the pose field of the
  response, and \<^verbatim>\<open>copyObject\<close> returns the value of element 0 of the field
  \<^verbatim>\<open>newObjectHandles\<close> when that list is not empty, with no other transformation. The
  other methods do not return a field: \<^verbatim>\<open>start\<close>, \<^verbatim>\<open>stop\<close> and both forms of
  \<^verbatim>\<open>moveObject\<close> return the comparison \<open>R \<noteq> -1\<close> of the result field \<open>R\<close>, both forms of
  \<^verbatim>\<open>loadScene\<close> return the comparison \<open>R = 1\<close>, and \<^verbatim>\<open>isRunning\<close> returns the flag
  \<^verbatim>\<open>running_\<close> after the queued deliveries and sends no request.
\<close>

theorem return_values_from_response:
  "(fst (callGetObjectHandle env (handleClient h) name (world r)) = (ok, H) \<longrightarrow>
      sint (fst (getHandle env name (h, r))) = sint H) \<and>
   (fst (callGetObjectPose env (poseClient h)
        \<lparr>gop_handle = ucast handle, gop_relativeToObjectHandle = - 1\<rparr> (world r)) = (ok, resp) \<longrightarrow>
      fst (getPose env handle (h, r)) = gop_pose resp) \<and>
   (fst (callCopyPasteObjects env (copyClient h) [ucast handle] (world r)) = (ok, hs) \<and> hs \<noteq> [] \<longrightarrow>
      map_option (sint \<circ> fst) (copyObject env handle (h, r)) = Some (sint (hs ! 0))) \<and>
   (fst (callStartSimulation env (startClient h) () (world r)) = (ok, R) \<longrightarrow>
      fst (start env (h, r)) = (R \<noteq> - 1)) \<and>
   (fst (callStopSimulation env (stopClient h) () (world r)) = (ok, R) \<longrightarrow>
      fst (stop env (h, r)) = (R \<noteq> - 1)) \<and>
   (fst (callSetObjectPosition env (moveClient h)
        \<lparr>sop_handle = ucast handle, sop_relativeToObjectHandle = - 1,
         sop_position = \<lparr>point_x = x, point_y = y, point_z = z\<rparr>\<rparr> (world r)) = (ok, R) \<longrightarrow>
      fst (moveObject_handle env handle x y z (h, r)) = (R \<noteq> - 1)) \<and>
   (callGetObjectHandle env (handleClient h) name (world r) = ((okh, H), wh) \<and>
    fst (callSetObjectPosition env (moveClient h)
        \<lparr>sop_handle = H, sop_relativeToObjectHandle = - 1,
         sop_position = \<lparr>point_x = x, point_y = y, point_z = z\<rparr>\<rparr> wh) = (ok, R) \<longrightarrow>
      fst (moveObject_name env name x y z (h, r)) = (R \<noteq> - 1)) \<and>
   (fst (callLoadScene env (loadClient h) fullPath (world r)) = (ok, R) \<longrightarrow>
      fst (loadScene_path env fullPath (h, r)) = (R = 1)) \<and>
   (fst (callLoadScene env (loadClient h)
        (getPath env packageName @ ''/problems/'' @ problemName @ ''/'' @ relativePath)
        (world r)) = (ok, R) \<longrightarrow>
      fst (loadScene_package env problemName relativePath packageName (h, r)) = (R = 1)) \<and>
   fst (isRunning (h, r)) = running (deliver (pending r) h) \<and>
   sent (snd (snd (isRunning (h, r)))) = sent r"
proof (intro conjI impI)
  show "fst (moveObject_name env name x y z (h, r)) = (R \<noteq> - 1)"
    if "callGetObjectHandle env (handleClient h) name (world r) = ((okh, H), wh) \<and>
      fst (callSetObjectPosition env (moveClient h)
        \<lparr>sop_handle = H, sop_relativeToObjectHandle = - 1,
         sop_position = \<lparr>point_x = x, point_y = y, point_z = z\<rparr>\<rparr> wh) = (ok, R)"
    by (rule moveObject_name_result [OF conjunct1 [OF that] conjunct2 [OF that]])
  show "fst (isRunning (h, r)) = running (deliver (pending r) h)"
    by (simp add: isRunning_eq)
  show "sent (snd (snd (isRunning (h, r)))) = sent r"
    by (simp add: isRunning_eq)
qed (auto simp add: loadScene_package_path call_def Let_def sint_scast_int32 split: prod.splits)

text \<open>
  An instance with negative handles, which the widening keeps, and the result code 0.
\<close>

theorem return_values_from_response_witness:
  "sint (fst (getHandle (mockRemote 0 (- 2) [- 3, 4]) ''box'' (VrepHelper_node 0, ros0))) = - 2 \<and>
   fst (getPose (mockRemote 0 (- 2) [- 3, 4]) 7 (VrepHelper_node 0, ros0)) = ''pose'' \<and>
   map_option (sint \<circ> fst) (copyObject (mockRemote 0 (- 2) [- 3, 4]) 7 (VrepHelper_node 0, ros0)) =
     Some (- 3) \<and>
   fst (start (mockRemote 0 (- 2) [- 3, 4]) (VrepHelper_node 0, ros0)) = True \<and>
   fst (stop (mockRemote 0 (- 2) [- 3, 4]) (VrepHelper_node 0, ros0)) = True \<and>
   fst (moveObject_handle (mockRemote 0 (- 2) [- 3, 4]) 7 1 2 3 (VrepHelper_node 0, ros0)) = True \<and>
   fst (moveObject_name (mockRemote 0 (- 2) [- 3, 4]) ''box'' 1 2 3 (VrepHelper_node 0, ros0)) = True \<and>
   fst (loadScene_path (mockRemote 0 (- 2) [- 3, 4]) ''/tmp/scene.ttt'' (VrepHelper_node 0, ros0))
     = False \<and>
   fst (loadScene_package (mockRemote 0 (- 2) [- 3, 4]) ''tag'' ''scene.ttt'' ''tapir''
     (VrepHelper_node 0, ros0)) = False"
  using return_values_from_response [where env = "mockRemote 0 (- 2) [- 3, 4]"
    and h = "VrepHelper_node 0" and r = ros0 and ok = True and H = "- 2" and name = "''box''"
    and handle = 7 and resp = "\<lparr>gop_result = 0, gop_pose = ''pose''\<rparr>" and hs = "[- 3, 4]"
    and R = 0 and x = 1 and y = 2 and z = 3 and okh = True and wh = 1
    and fullPath = "''/tmp/scene.ttt''" and packageName = "''tapir''" and problemName = "''tag''"
    and relativePath = "''scene.ttt''"]
  by (simp add: mockRemote_def ros0_def
        del: getHandle.simps copyObject.simps getPose.simps start.simps stop.simps
          moveObject_handle.simps moveObject_name.simps loadScene_path.simps)

text \<open>
  C6 as stated, for every method, fails. \<^verbatim>\<open>start\<close> returns the same value for the result
  codes 0 and 7, so its value is not the result field; and \<^verbatim>\<open>isRunning\<close> returns true
  from a queued status while no request has been sent, so its value is no field of any
  response.
\<close>

theorem start_not_a_response_field_counterexample:
  "snd (fst (callStartSimulation (mockRemote 0 5 [9]) (startClient (VrepHelper_node 0)) ()
      (world ros0))) = 0 \<and>
   snd (fst (callStartSimulation (mockRemote 7 5 [9]) (startClient (VrepHelper_node 0)) ()
      (world ros0))) = 7 \<and>
   (0 :: int32) \<noteq> 7 \<and>
   fst (start (mockRemote 0 5 [9]) (VrepHelper_node 0, ros0)) =
   fst (start (mockRemote 7 5 [9]) (VrepHelper_node 0, ros0)) \<and>
   fst (isRunning (VrepHelper_node 0, ros0\<lparr>pending := [\<lparr>simulatorState = 1\<rparr>]\<rparr>)) = True \<and>
   sent (snd (snd (isRunning (VrepHelper_node 0, ros0\<lparr>pending := [\<lparr>simulatorState = 1\<rparr>]\<rparr>)))) = []"
  by (simp add: mockRemote_def ros0_def call_def isRunning_eq deliver_def infoCallback_def)

subsection \<open>C7: loading a scene from a package\<close>

text \<open>
  C7. Loading by problem name, relative path and package name is loading by the path
  that the specification words: the package path, \<^verbatim>\<open>/problems/\<close>, the problem name,
  \<^verbatim>\<open>/\<close> and the relative path, in that order.
\<close>

theorem loadScene_package_reduces_to_path:
  "loadScene_package env problemName relativePath packageName s =
     loadScene_path env (scenePath_spec (getPath env packageName) problemName relativePath) s \<and>
   scenePath_spec packagePath problemName relativePath =
     packagePath @ ''/problems/'' @ problemName @ ''/'' @ relativePath"
  by (simp add: loadScene_package_def scenePath_spec_def Let_def del: loadScene_path.simps)

text \<open>
  An instance: the package \<^verbatim>\<open>tapir\<close> lies under \<^verbatim>\<open>/opt/ros/tapir\<close>.
\<close>

theorem loadScene_package_reduces_to_path_witness:
  "loadScene_package (mockRemote 1 5 [9]) ''tag'' ''vrep_scenes/tag.ttt'' ''tapir''
     (VrepHelper_node 0, ros0) =
   loadScene_path (mockRemote 1 5 [9]) ''/opt/ros/tapir/problems/tag/vrep_scenes/tag.ttt''
     (VrepHelper_node 0, ros0)"
  using loadScene_package_reduces_to_path [where env = "mockRemote 1 5 [9]"
    and problemName = "''tag''" and relativePath = "''vrep_scenes/tag.ttt''"
    and packageName = "''tapir''" and s = "(VrepHelper_node 0, ros0)"
    and packagePath = "''/opt/ros/tapir''"]
  by (simp add: mockRemote_def del: loadScene_path.simps)

subsection \<open>C8: the first new handle\<close>

text \<open>
  C8. Let \<open>hs\<close> be the list \<^verbatim>\<open>newObjectHandles\<close> that the service leaves in the response.
  \<^verbatim>\<open>copyObject\<close> has no defined result exactly when \<open>hs\<close> is empty; when \<open>hs\<close> is not
  empty it returns element 0 of \<open>hs\<close>.
\<close>

theorem copyObject_defined_iff_nonempty:
  "fst (callCopyPasteObjects env (copyClient h) [ucast handle] (world r)) = (ok, hs) \<Longrightarrow>
   (copyObject env handle (h, r) = None \<longleftrightarrow> hs = []) \<and>
   (hs \<noteq> [] \<longrightarrow> map_option fst (copyObject env handle (h, r)) = Some (scast (hs ! 0)))"
  by (auto simp add: call_def Let_def split: prod.splits)

text \<open>
  Two instances: a response with two handles, and a response with none.
\<close>

theorem copyObject_defined_iff_nonempty_witness:
  "map_option fst (copyObject (mockRemote 0 5 [9, 4]) 7 (VrepHelper_node 0, ros0)) = Some 9 \<and>
   copyObject (mockRemote 0 5 []) 7 (VrepHelper_node 0, ros0) = None"
proof -
  have full: "fst (callCopyPasteObjects (mockRemote 0 5 [9, 4]) (copyClient (VrepHelper_node 0))
      [ucast (7 :: long)] (world ros0)) = (True, [9, 4])"
    by (simp add: mockRemote_def)
  have empty: "fst (callCopyPasteObjects (mockRemote 0 5 []) (copyClient (VrepHelper_node 0))
      [ucast (7 :: long)] (world ros0)) = (True, [])"
    by (simp add: mockRemote_def)
  show ?thesis
    using copyObject_defined_iff_nonempty [OF full] copyObject_defined_iff_nonempty [OF empty]
    by (simp del: copyObject.simps)
qed

subsection \<open>C9: the world frame\<close>

text \<open>
  C9. The move by handle and \<^verbatim>\<open>getPose\<close> each send exactly one request, whose field
  \<^verbatim>\<open>relativeToObjectHandle\<close> is -1; the move by name sends the lookup and then a position
  request whose \<^verbatim>\<open>relativeToObjectHandle\<close> is -1.
\<close>

theorem position_and_pose_in_world_frame:
  "sent (snd (snd (moveObject_handle env handle x y z (h, r)))) =
     sent r @ [(moveClient h, SetObjectPosition
       \<lparr>sop_handle = ucast handle, sop_relativeToObjectHandle = - 1,
        sop_position = \<lparr>point_x = x, point_y = y, point_z = z\<rparr>\<rparr>)] \<and>
   sent (snd (snd (getPose env handle (h, r)))) =
     sent r @ [(poseClient h, GetObjectPose
       \<lparr>gop_handle = ucast handle, gop_relativeToObjectHandle = - 1\<rparr>)] \<and>
   (\<exists>H. sent (snd (snd (moveObject_name env name x y z (h, r)))) =
     sent r @ [(handleClient h, GetObjectHandle name),
       (moveClient h, SetObjectPosition
         \<lparr>sop_handle = H, sop_relativeToObjectHandle = - 1,
          sop_position = \<lparr>point_x = x, point_y = y, point_z = z\<rparr>\<rparr>)])"
proof (intro conjI)
  obtain ok H where "fst (callGetObjectHandle env (handleClient h) name (world r)) = (ok, H)"
    by (cases "fst (callGetObjectHandle env (handleClient h) name (world r))")
  then show "\<exists>H. sent (snd (snd (moveObject_name env name x y z (h, r)))) =
     sent r @ [(handleClient h, GetObjectHandle name),
       (moveClient h, SetObjectPosition
         \<lparr>sop_handle = H, sop_relativeToObjectHandle = - 1,
          sop_position = \<lparr>point_x = x, point_y = y, point_z = z\<rparr>\<rparr>)]"
    by (blast dest: moveObject_name_sent)
qed (simp_all only: sent_one)

text \<open>
  An instance: the requests for the handle 7.
\<close>

theorem position_and_pose_in_world_frame_witness:
  "sent (snd (snd (moveObject_handle (mockRemote 0 5 [9]) 7 1 2 3 (VrepHelper_node 0, ros0)))) =
     [(Some ''vrep/simRosSetObjectPosition'', SetObjectPosition
        \<lparr>sop_handle = 7, sop_relativeToObjectHandle = - 1,
         sop_position = \<lparr>point_x = 1, point_y = 2, point_z = 3\<rparr>\<rparr>)] \<and>
   sent (snd (snd (getPose (mockRemote 0 5 [9]) 7 (VrepHelper_node 0, ros0)))) =
     [(Some ''vrep/simRosGetObjectPose'', GetObjectPose
        \<lparr>gop_handle = 7, gop_relativeToObjectHandle = - 1\<rparr>)]"
proof -
  note inst = position_and_pose_in_world_frame [where env = "mockRemote 0 5 [9]"
    and h = "VrepHelper_node 0" and r = ros0 and handle = 7 and x = 1 and y = 2 and z = 3]
  show ?thesis
    using inst [THEN conjunct1] inst [THEN conjunct2, THEN conjunct1]
    by (simp add: ros0_def VrepHelper_node_def setRosNode_def
        del: moveObject_handle.simps getPose.simps)
qed

subsection \<open>C10: only the callback changes the flag\<close>

text \<open>
  C10. Both constructors leave \<^verbatim>\<open>running_\<close> false, so that \<^verbatim>\<open>isRunning\<close> returns false
  while no delivery is queued; the callback sets the flag; and \<^verbatim>\<open>setRosNode\<close>,
  \<^verbatim>\<open>start\<close>, \<^verbatim>\<open>stop\<close>, \<^verbatim>\<open>getHandle\<close>, both forms of \<^verbatim>\<open>moveObject\<close>, \<^verbatim>\<open>getPose\<close>, both
  forms of \<^verbatim>\<open>loadScene\<close> and \<^verbatim>\<open>copyObject\<close> (when its result is defined) leave the flag
  as it was.
\<close>

theorem only_infoCallback_changes_running:
  "running VrepHelper_default = False \<and>
   running (VrepHelper_node nh) = False \<and>
   (pending r = [] \<longrightarrow>
      fst (isRunning (VrepHelper_default, r)) = False \<and>
      fst (isRunning (VrepHelper_node nh, r)) = False) \<and>
   running (infoCallback msg h) = (simulatorState msg = 1) \<and>
   running (setRosNode nh h) = running h \<and>
   running (fst (snd (start env (h, r)))) = running h \<and>
   running (fst (snd (stop env (h, r)))) = running h \<and>
   running (fst (snd (getHandle env name (h, r)))) = running h \<and>
   running (fst (snd (moveObject_name env name x y z (h, r)))) = running h \<and>
   running (fst (snd (moveObject_handle env handle x y z (h, r)))) = running h \<and>
   running (fst (snd (getPose env handle (h, r)))) = running h \<and>
   running (fst (snd (loadScene_path env fullPath (h, r)))) = running h \<and>
   running (fst (snd (loadScene_package env problemName relativePath packageName (h, r)))) =
     running h \<and>
   (copyObject env handle (h, r) = Some (v, h', r') \<longrightarrow> running h' = running h)"
proof (intro conjI impI)
  show "running h' = running h" if "copyObject env handle (h, r) = Some (v, h', r')"
    using copyObject_helper_unchanged [OF that] by simp
  show "fst (isRunning (VrepHelper_default, r)) = False" if "pending r = []"
    using that by (simp add: isRunning_eq deliver_Nil VrepHelper_default_def)
  show "fst (isRunning (VrepHelper_node nh, r)) = False" if "pending r = []"
    using that
    by (simp add: isRunning_eq deliver_Nil VrepHelper_node_def setRosNode_def VrepHelper_default_def)
qed (simp_all only: helper_unchanged moveObject_name_helper_unchanged
       loadScene_package_helper_unchanged running_infoCallback,
     simp_all add: VrepHelper_node_def setRosNode_def VrepHelper_default_def)

text \<open>
  An instance: a fresh helper, an empty queue, and a copy that succeeds.
\<close>

theorem only_infoCallback_changes_running_witness:
  "pending ros0 = [] \<and>
   fst (isRunning (VrepHelper_default, ros0)) = False \<and>
   fst (isRunning (VrepHelper_node 0, ros0)) = False \<and>
   copyObject (mockRemote 0 5 [9]) 7 (VrepHelper_node 0, ros0) =
     Some (9, VrepHelper_node 0,
       \<lparr>world = 1, sent = [(Some ''vrep/simRosCopyPasteObjects'', CopyPasteObjects [7])],
        pending = []\<rparr>) \<and>
   running (VrepHelper_node 0) = False \<and>
   running (infoCallback \<lparr>simulatorState = 1\<rparr> (VrepHelper_node 0)) = True"
proof -
  let ?h = "VrepHelper_node 0"
  let ?r' = "\<lparr>world = 1, sent = [(Some ''vrep/simRosCopyPasteObjects'', CopyPasteObjects [7])],
        pending = []\<rparr> :: (nat, int) ros"
  note inst = only_infoCallback_changes_running [where env = "mockRemote 0 5 [9]"
      and h = ?h and r = ros0 and nh = 0 and handle = 7 and v = 9 and h' = ?h
      and r' = ?r' and msg = "\<lparr>simulatorState = 1\<rparr>"]
  have empty: "pending ros0 = []"
    by (simp add: ros0_def)
  have copy: "copyObject (mockRemote 0 5 [9]) 7 (?h, ros0) = Some (9, ?h, ?r')"
    by (simp add: mockRemote_def ros0_def call_def VrepHelper_node_def setRosNode_def)
  have idle: "fst (isRunning (VrepHelper_default, ros0)) = False \<and>
      fst (isRunning (VrepHelper_node 0, ros0)) = False"
    using inst empty by blast
  have fresh: "running ?h = False"
    using inst by blast
  have "running (infoCallback \<lparr>simulatorState = 1\<rparr> ?h) =
      (simulatorState \<lparr>simulatorState = 1\<rparr> = 1)"
    using inst by blast
  then have flag: "running (infoCallback \<lparr>simulatorState = 1\<rparr> ?h) = True"
    by simp
  show ?thesis
    using empty idle copy fresh flag by blast
qed

end
